theory Spec2Isabelle
  imports Main
begin

section \<open>Fixed-point constants (config.py)\<close>

definition NAD :: int where
  "NAD = 1000000000"

definition BPS_DENOMINATOR :: int where
  "BPS_DENOMINATOR = 10000"

definition CLOSE_FACTOR_BPS :: int where
  "CLOSE_FACTOR_BPS = 5000"

definition MAX_COLLATERAL_FACTOR_BPS :: int where
  "MAX_COLLATERAL_FACTOR_BPS = 8500"

definition LTV_BUFFER_BPS :: int where
  "LTV_BUFFER_BPS = 500"

definition LIQUIDATION_INCENTIVE_BPS :: int where
  "LIQUIDATION_INCENTIVE_BPS = 300"

definition MIN_HALF_LIFE :: int where
  "MIN_HALF_LIFE = 60"

definition MAX_HALF_LIFE :: int where
  "MAX_HALF_LIFE = 43200"

definition DEFAULT_HALF_LIFE :: int where
  "DEFAULT_HALF_LIFE = 60"

section \<open>Exceptions and the floating-point library calls\<close>

text \<open>
  Python integers are unbounded, so every amount is an \<open>int\<close>; \<open>//\<close> is floor division,
  which is what \<open>div\<close> on \<open>int\<close> computes. A division whose divisor can be zero raises
  \<open>ZeroDivisionError\<close> and is written out as a branch.
\<close>

datatype py_error = ZeroDivisionError | ValueError | OverflowError | AssertionError

text \<open>
  \<open>int(math.sqrt(n))\<close> converts \<open>n\<close> to a double, takes the double square root and
  truncates. It is a library routine on IEEE doubles, so the functions that call it take
  it as the parameter \<open>sq\<close>: it raises for a negative argument (\<open>ValueError\<close>) and for
  one beyond the double range (\<open>OverflowError\<close>).
\<close>

type_synonym int_sqrt = "int \<Rightarrow> py_error + int"

text \<open>
  The exact integer square root, by halving: the root of \<open>n\<close> is twice the root of
  \<open>n div 4\<close>, plus one when that still fits. Where the operand and its root are both
  exactly representable doubles (a perfect square with at most 53 significant bits),
  the library routine returns this value.
\<close>

definition sqrt_step :: "nat \<Rightarrow> nat \<Rightarrow> nat" where
  "sqrt_step n r = (if (r + 1) * (r + 1) \<le> n then r + 1 else r)"

fun floor_sqrt :: "nat \<Rightarrow> nat" where
  "floor_sqrt n = (if n < 2 then n else sqrt_step n (2 * floor_sqrt (n div 4)))"

declare floor_sqrt.simps [simp del]

definition exact_sqrt :: int_sqrt where
  "exact_sqrt n = (if n < 0 then Inl ValueError else Inr (int (floor_sqrt (nat n))))"

section \<open>Collateral factor solver (collateral_factor.py)\<close>

definition curve_y_from_v :: "int_sqrt \<Rightarrow> int \<Rightarrow> int \<Rightarrow> py_error + int" where
  "curve_y_from_v sq v r1 =
     (if v = 0 \<or> r1 = 0 then Inr 0
      else
        let a_scaled = (v * NAD) div r1;
            four_a_plus_one = (4 * a_scaled) + NAD
        in case sq (four_a_plus_one * NAD) of
             Inl e \<Rightarrow> Inl e
           | Inr sqrt_term \<Rightarrow>
               let numerator = 2 * a_scaled * NAD;
                   denominator = (2 * a_scaled) + NAD + sqrt_term
               in if denominator = 0 then Inr 0
                  else let t_scaled = numerator div denominator
                       in Inr ((r1 * t_scaled) div NAD))"

definition get_pessimistic_cf_bps :: "int \<Rightarrow> int \<Rightarrow> int \<Rightarrow> int" where
  "get_pessimistic_cf_bps base_cf_bps spot_price ema_price =
     (if ema_price = 0 then 100
      else
        let shrunk_cf = (spot_price * base_cf_bps) div ema_price;
            cf_bps = min base_cf_bps shrunk_cf;
            cf_bps = max 100 cf_bps;
            cf_bps = min MAX_COLLATERAL_FACTOR_BPS cf_bps
        in cf_bps)"

definition calculate_dynamic_cf :: "int_sqrt \<Rightarrow> int \<Rightarrow> int \<Rightarrow> int \<Rightarrow> py_error + int" where
  "calculate_dynamic_cf sq collateral_amount collateral_ema_price debt_reserve =
     (if debt_reserve = 0 then Inr 0
      else
        let v = (collateral_amount * collateral_ema_price) div NAD
        in if v = 0 then Inr 0
           else case curve_y_from_v sq v debt_reserve of
                  Inl e \<Rightarrow> Inl e
                | Inr y_curve \<Rightarrow> Inr ((y_curve * BPS_DENOMINATOR) div v))"

text \<open>
  Steps 2 to 4 of \<open>pessimistic_max_debt\<close>, which run once the base collateral factor is
  known: the pessimistic cap, the LTV buffer and the borrow limit.
\<close>

definition finish_max_debt :: "int \<Rightarrow> int \<Rightarrow> int \<Rightarrow> int \<Rightarrow> bool \<Rightarrow> bool \<Rightarrow> int \<times> int \<times> int" where
  "finish_max_debt v base_cf_bps collateral_spot_price collateral_ema_price
       use_pessimistic_cap use_ltv_buffer =
     (let liquidation_cf_bps =
            (if use_pessimistic_cap
             then get_pessimistic_cf_bps base_cf_bps collateral_spot_price collateral_ema_price
             else min base_cf_bps MAX_COLLATERAL_FACTOR_BPS);
          buffer = (if use_ltv_buffer then LTV_BUFFER_BPS else 0);
          max_allowed_cf_bps = max 0 (liquidation_cf_bps - buffer);
          max_borrow = (v * max_allowed_cf_bps) div BPS_DENOMINATOR
      in (max_borrow, max_allowed_cf_bps, liquidation_cf_bps))"

text \<open>
  Step 1 of \<open>pessimistic_max_debt\<close>: the base collateral factor. \<open>None\<close> is the early
  return \<open>(0, 0, 0)\<close> of the dynamic branch on an empty debt reserve.
\<close>

definition base_cf :: "int_sqrt \<Rightarrow> int \<Rightarrow> int \<Rightarrow> int \<Rightarrow> int option \<Rightarrow> bool \<Rightarrow> py_error + int option" where
  "base_cf sq collateral_amount collateral_ema_price debt_reserve fixed_cf_bps use_dynamic_cf =
     (case fixed_cf_bps of
        Some f \<Rightarrow> Inr (Some f)
      | None \<Rightarrow>
          if use_dynamic_cf then
            (if debt_reserve = 0 then Inr None
             else case calculate_dynamic_cf sq collateral_amount collateral_ema_price debt_reserve of
                    Inl e \<Rightarrow> Inl e
                  | Inr cf \<Rightarrow> Inr (Some cf))
          else Inr (Some 7500))"

definition pessimistic_max_debt ::
  "int_sqrt \<Rightarrow> int \<Rightarrow> int \<Rightarrow> int \<Rightarrow> int \<Rightarrow> int option \<Rightarrow> bool \<Rightarrow> bool \<Rightarrow> bool
     \<Rightarrow> py_error + (int \<times> int \<times> int)" where
  "pessimistic_max_debt sq collateral_amount collateral_ema_price collateral_spot_price
       debt_reserve fixed_cf_bps use_dynamic_cf use_pessimistic_cap use_ltv_buffer =
     (if collateral_amount = 0 \<or> collateral_ema_price = 0 \<or> collateral_spot_price = 0
      then Inr (0, 0, 0)
      else
        let v = (collateral_amount * collateral_ema_price) div NAD
        in case base_cf sq collateral_amount collateral_ema_price debt_reserve
                  fixed_cf_bps use_dynamic_cf of
             Inl e \<Rightarrow> Inl e
           | Inr None \<Rightarrow> Inr (0, 0, 0)
           | Inr (Some base_cf_bps) \<Rightarrow>
               Inr (finish_max_debt v base_cf_bps collateral_spot_price collateral_ema_price
                      use_pessimistic_cap use_ltv_buffer))"

record CollateralFactorCalculator =
  use_dynamic_cf :: bool
  use_pessimistic_cap :: bool
  use_ltv_buffer :: bool
  fixed_cf_bps :: "int option"
  max_cf_bps :: int

text \<open>The constructor stores its arguments; it has no check and no \<open>raise\<close>.\<close>

definition CollateralFactorCalculator_init ::
  "bool \<Rightarrow> bool \<Rightarrow> bool \<Rightarrow> int option \<Rightarrow> int \<Rightarrow> py_error + CollateralFactorCalculator" where
  "CollateralFactorCalculator_init dyn pess buf fixed mx =
     Inr \<lparr>use_dynamic_cf = dyn, use_pessimistic_cap = pess, use_ltv_buffer = buf,
          fixed_cf_bps = fixed, max_cf_bps = mx\<rparr>"

definition calculate ::
  "int_sqrt \<Rightarrow> CollateralFactorCalculator \<Rightarrow> int \<Rightarrow> int \<Rightarrow> int \<Rightarrow> int
     \<Rightarrow> py_error + (int \<times> int \<times> int)" where
  "calculate sq self collateral_amount collateral_ema_price collateral_spot_price debt_reserve =
     pessimistic_max_debt sq collateral_amount collateral_ema_price collateral_spot_price
       debt_reserve (fixed_cf_bps self) (use_dynamic_cf self) (use_pessimistic_cap self)
       (use_ltv_buffer self)"

section \<open>Liquidation engine (liquidation_engine.py)\<close>

definition is_liquidatable :: "int \<Rightarrow> int \<Rightarrow> int \<Rightarrow> bool" where
  "is_liquidatable collateral_value debt_amount liquidation_cf_bps =
     (if collateral_value = 0 then debt_amount > 0
      else
        let borrow_limit = (collateral_value * liquidation_cf_bps) div BPS_DENOMINATOR
        in debt_amount \<ge> borrow_limit)"

text \<open>
  \<open>calculate_liquidation\<close> returns one of two dictionaries. The one with
  \<open>"liquidatable": True\<close> is the record \<open>Liquidation\<close>, whose fields are its keys
  (\<open>res_collateral_value\<close> and \<open>res_debt_amount\<close> are the keys \<open>collateral_value\<close> and
  \<open>debt_amount\<close>); the one with \<open>"liquidatable": False\<close> is \<open>NotLiquidatable\<close> with
  the values of \<open>health_factor\<close>, \<open>collateral_value\<close>, \<open>debt_amount\<close> and
  \<open>borrow_limit\<close>, in that order.
\<close>

record Liquidation =
  is_insolvent :: bool
  debt_to_repay :: int
  collateral_seized :: int
  liquidator_bonus :: int
  collateral_to_reserves :: int
  bad_debt :: int
  remaining_collateral :: int
  remaining_debt :: int
  liquidator_profit_usd :: int
  health_factor :: int
  res_collateral_value :: int
  res_debt_amount :: int
  borrow_limit :: int

datatype LiquidationResult =
    NotLiquidatable int int int int
  | Liquidatable Liquidation

fun liquidatable :: "LiquidationResult \<Rightarrow> bool" where
  "liquidatable (NotLiquidatable hf cv d bl) = False"
| "liquidatable (Liquidatable r) = True"

definition calculate_liquidation ::
  "int \<Rightarrow> int \<Rightarrow> int \<Rightarrow> int \<Rightarrow> int \<Rightarrow> int \<Rightarrow> py_error + LiquidationResult" where
  "calculate_liquidation collateral_amount collateral_price debt_amount liquidation_cf_bps
       close_factor liquidation_incentive =
     (let collateral_value = (collateral_amount * collateral_price) div NAD;
          borrow_lim = (collateral_value * liquidation_cf_bps) div BPS_DENOMINATOR
      in if debt_amount < borrow_lim
         then Inr (NotLiquidatable
                     (if debt_amount > 0 then (borrow_lim * 100) div debt_amount else 999)
                     collateral_value debt_amount borrow_lim)
         else
           let insolvent = (debt_amount > collateral_value);
               repay = (if insolvent then debt_amount
                        else let partial_debt = (debt_amount * close_factor) div BPS_DENOMINATOR
                             in min debt_amount partial_debt)
           in if collateral_price = 0 then Inl ZeroDivisionError
              else
                let collateral_to_seize = (repay * NAD) div collateral_price;
                    collateral_to_seize = min collateral_to_seize collateral_amount;
                    bonus = (collateral_to_seize * liquidation_incentive) div BPS_DENOMINATOR;
                    to_reserves = max 0 (collateral_to_seize - bonus);
                    bad = (if insolvent then max 0 (debt_amount - collateral_value) else 0)
                in Inr (Liquidatable
                     \<lparr>is_insolvent = insolvent,
                      debt_to_repay = repay,
                      collateral_seized = collateral_to_seize,
                      liquidator_bonus = bonus,
                      collateral_to_reserves = to_reserves,
                      bad_debt = bad,
                      remaining_collateral = collateral_amount - collateral_to_seize,
                      remaining_debt = debt_amount - repay,
                      liquidator_profit_usd = (bonus * collateral_price) div NAD - repay,
                      health_factor = 0,
                      res_collateral_value = collateral_value,
                      res_debt_amount = debt_amount,
                      borrow_limit = borrow_lim\<rparr>))"

record LiquidationEngine =
  close_factor_bps :: int
  liquidation_incentive_bps :: int
  enable_partial_liquidation :: bool
  total_liquidations :: int
  total_bad_debt :: int
  total_liquidated_debt :: int
  total_seized_collateral :: int

definition LiquidationEngine_init :: "int \<Rightarrow> int \<Rightarrow> bool \<Rightarrow> LiquidationEngine" where
  "LiquidationEngine_init close_factor incentive enable_partial =
     \<lparr>close_factor_bps = (if enable_partial then close_factor else 10000),
      liquidation_incentive_bps = incentive,
      enable_partial_liquidation = enable_partial,
      total_liquidations = 0,
      total_bad_debt = 0,
      total_liquidated_debt = 0,
      total_seized_collateral = 0\<rparr>"


section \<open>EMA price oracle (ema_engine.py)\<close>

text \<open>
  The decay step of the average is floating point:
  \<open>int(spot * (1 - alpha) + last_ema * alpha)\<close> with
  \<open>alpha = math.exp(-dt / (half_life / LN_2))\<close>. The oracle takes it as the parameter
  \<open>blend half_life dt spot last_ema\<close>; the branches around it are integer tests.
\<close>

type_synonym ema_blend = "int \<Rightarrow> int \<Rightarrow> int \<Rightarrow> int \<Rightarrow> py_error + int"

record EMAEngine =
  half_life :: int
  last_ema :: int
  last_update :: int

definition EMAEngine_init :: "int \<Rightarrow> py_error + EMAEngine" where
  "EMAEngine_init hl =
     (if MIN_HALF_LIFE \<le> hl \<and> hl \<le> MAX_HALF_LIFE
      then Inr \<lparr>half_life = hl, last_ema = 0, last_update = 0\<rparr>
      else Inl AssertionError)"

definition initialize :: "EMAEngine \<Rightarrow> int \<Rightarrow> int \<Rightarrow> EMAEngine" where
  "initialize self initial_price timestamp =
     self\<lparr>last_ema := initial_price, last_update := timestamp\<rparr>"

definition update :: "ema_blend \<Rightarrow> EMAEngine \<Rightarrow> int \<Rightarrow> int \<Rightarrow> py_error + (int \<times> EMAEngine)" where
  "update blend self current_spot_price current_time =
     (if last_ema self = 0
      then let self' = initialize self current_spot_price current_time
           in Inr (last_ema self', self')
      else
        let dt = current_time - last_update self
        in if dt \<le> 0 then Inr (last_ema self, self)
           else case blend (half_life self) dt current_spot_price (last_ema self) of
                  Inl e \<Rightarrow> Inl e
                | Inr new_ema \<Rightarrow>
                    let self' = self\<lparr>last_ema := new_ema, last_update := current_time\<rparr>
                    in Inr (last_ema self', self'))"

definition get_current_ema :: "ema_blend \<Rightarrow> EMAEngine \<Rightarrow> int \<Rightarrow> int \<Rightarrow> py_error + int" where
  "get_current_ema blend self current_spot_price current_time =
     (if last_ema self = 0 then Inr current_spot_price
      else
        let dt = current_time - last_update self
        in if dt \<le> 0 then Inr (last_ema self)
           else blend (half_life self) dt current_spot_price (last_ema self))"

record PriceOracle =
  use_ema :: bool
  ema_engine :: "EMAEngine option"

definition PriceOracle_init :: "bool \<Rightarrow> int \<Rightarrow> py_error + PriceOracle" where
  "PriceOracle_init ema hl =
     (if ema
      then case EMAEngine_init hl of
             Inl e \<Rightarrow> Inl e
           | Inr eng \<Rightarrow> Inr \<lparr>use_ema = ema, ema_engine = Some eng\<rparr>
      else Inr \<lparr>use_ema = ema, ema_engine = None\<rparr>)"

definition get_price :: "ema_blend \<Rightarrow> PriceOracle \<Rightarrow> int \<Rightarrow> int \<Rightarrow> py_error + (int \<times> PriceOracle)" where
  "get_price blend self spot_price timestamp =
     (case (use_ema self, ema_engine self) of
        (True, Some eng) \<Rightarrow>
          (case update blend eng spot_price timestamp of
             Inl e \<Rightarrow> Inl e
           | Inr (p, eng') \<Rightarrow> Inr (p, self\<lparr>ema_engine := Some eng'\<rparr>))
      | _ \<Rightarrow> Inr (spot_price, self))"

section \<open>Simulation configuration (config.py)\<close>

record SimulationConfig =
  name :: string
  ema_enabled :: bool
  dynamic_cf_enabled :: bool
  pessimistic_cap_enabled :: bool
  ltv_buffer_enabled :: bool
  partial_liquidation_enabled :: bool
  cfg_half_life :: int
  cfg_fixed_cf_bps :: int
  cfg_max_cf_bps :: int
  ltv_buffer_bps :: int
  cfg_close_factor_bps :: int
  cfg_liquidation_incentive_bps :: int

text \<open>
  \<open>SimulationConfig.__init__\<close> with every keyword written out. A keyword the caller
  omits takes the default of the signature: \<open>half_life = DEFAULT_HALF_LIFE\<close>,
  \<open>fixed_cf_bps = 7500\<close>, \<open>max_cf_bps = MAX_COLLATERAL_FACTOR_BPS\<close>,
  \<open>ltv_buffer_bps = LTV_BUFFER_BPS\<close>, \<open>close_factor_bps = CLOSE_FACTOR_BPS\<close>,
  \<open>liquidation_incentive_bps = LIQUIDATION_INCENTIVE_BPS\<close>.
\<close>

definition SimulationConfig_init ::
  "string \<Rightarrow> bool \<Rightarrow> bool \<Rightarrow> bool \<Rightarrow> bool \<Rightarrow> bool \<Rightarrow> int \<Rightarrow> int \<Rightarrow> int \<Rightarrow> int \<Rightarrow> int \<Rightarrow> int
     \<Rightarrow> SimulationConfig" where
  "SimulationConfig_init nm ema dyn pess buf partial hl fixed mx buf_bps close_factor incentive =
     \<lparr>name = nm,
      ema_enabled = ema,
      dynamic_cf_enabled = dyn,
      pessimistic_cap_enabled = pess,
      ltv_buffer_enabled = buf,
      partial_liquidation_enabled = partial,
      cfg_half_life = hl,
      cfg_fixed_cf_bps = fixed,
      cfg_max_cf_bps = mx,
      ltv_buffer_bps = (if buf then buf_bps else 0),
      cfg_close_factor_bps = (if partial then close_factor else 10000),
      cfg_liquidation_incentive_bps = incentive\<rparr>"

text \<open>
  The preset \<open>ONLY_DYNAMIC_CF\<close>: it passes the name and the five toggles and leaves every
  parameter, \<open>fixed_cf_bps\<close> among them, to its default.
\<close>

definition ONLY_DYNAMIC_CF :: SimulationConfig where
  "ONLY_DYNAMIC_CF =
     SimulationConfig_init ''Only Dynamic CF'' False True False False True
       DEFAULT_HALF_LIFE 7500 MAX_COLLATERAL_FACTOR_BPS LTV_BUFFER_BPS CLOSE_FACTOR_BPS
       LIQUIDATION_INCENTIVE_BPS"

section \<open>Pool orchestrator (gamm_pool.py)\<close>

record BorrowerPosition =
  pos_id :: int
  collateral_amount :: int
  debt_amount :: int
  entry_price :: int
  entry_time :: int
  liquidated :: bool
  liquidation_time :: "int option"
  liquidation_price :: "int option"
  bad_debt_accrued :: int

record PoolState =
  timestamp :: int
  ps_reserve_base :: int
  ps_reserve_quote :: int
  ps_total_debt :: int
  total_collateral :: int
  spot_price :: int
  ema_price :: int
  average_cf_bps :: int
  active_positions :: int
  ps_total_bad_debt :: int
  protocol_health_pct :: int

text \<open>
  A liquidation event is the dictionary \<open>check_liquidations\<close> appends: its five own keys
  and the keys of the liquidation result.
\<close>

record LiquidationEvent =
  ev_timestamp :: int
  position_id :: int
  price :: int
  ev_spot_price :: int
  ev_ema_price :: int
  result :: Liquidation

record GAMMPool =
  config :: SimulationConfig
  reserve_base :: int
  reserve_quote :: int
  total_debt :: int
  total_collateral_base :: int
  total_collateral_quote :: int
  current_time :: int
  pool_last_update :: int
  price_oracle :: PriceOracle
  cf_calculator :: CollateralFactorCalculator
  liquidation_engine :: LiquidationEngine
  positions :: "BorrowerPosition list"
  next_position_id :: int
  state_history :: "PoolState list"
  liquidation_events :: "LiquidationEvent list"

definition get_spot_price :: "GAMMPool \<Rightarrow> int" where
  "get_spot_price self =
     (if reserve_base self = 0 then 0
      else (reserve_quote self * NAD) div reserve_base self)"

definition get_lending_price :: "ema_blend \<Rightarrow> GAMMPool \<Rightarrow> int \<Rightarrow> py_error + (int \<times> GAMMPool)" where
  "get_lending_price blend self ts =
     (let spot = get_spot_price self
      in case get_price blend (price_oracle self) spot ts of
           Inl e \<Rightarrow> Inl e
         | Inr (p, oracle') \<Rightarrow> Inr (p, self\<lparr>price_oracle := oracle'\<rparr>))"

definition GAMMPool_init :: "ema_blend \<Rightarrow> SimulationConfig \<Rightarrow> int \<Rightarrow> int \<Rightarrow> int \<Rightarrow> py_error + GAMMPool" where
  "GAMMPool_init blend cfg initial_reserve_base initial_reserve_quote initial_timestamp =
     (case PriceOracle_init (ema_enabled cfg)
             (if ema_enabled cfg then cfg_half_life cfg else 60) of
        Inl e \<Rightarrow> Inl e
      | Inr oracle \<Rightarrow>
         (case CollateralFactorCalculator_init (dynamic_cf_enabled cfg)
                 (pessimistic_cap_enabled cfg) (ltv_buffer_enabled cfg)
                 (Some (cfg_fixed_cf_bps cfg)) (cfg_max_cf_bps cfg) of
            Inl e \<Rightarrow> Inl e
          | Inr calc \<Rightarrow>
              let self = \<lparr>config = cfg,
                          reserve_base = initial_reserve_base,
                          reserve_quote = initial_reserve_quote,
                          total_debt = 0,
                          total_collateral_base = 0,
                          total_collateral_quote = 0,
                          current_time = initial_timestamp,
                          pool_last_update = initial_timestamp,
                          price_oracle = oracle,
                          cf_calculator = calc,
                          liquidation_engine =
                            LiquidationEngine_init (cfg_close_factor_bps cfg)
                              (cfg_liquidation_incentive_bps cfg)
                              (partial_liquidation_enabled cfg),
                          positions = [],
                          next_position_id = 1,
                          state_history = [],
                          liquidation_events = []\<rparr>
              in (case get_lending_price blend self initial_timestamp of
                    Inl e \<Rightarrow> Inl e
                  | Inr (p, self') \<Rightarrow> Inr self')))"








section \<open>What a step may do to a position\<close>


section \<open>A run of the preset ONLY_DYNAMIC_CF\<close>

text \<open>
  The states of one run, written out: a pool of 1000 base and 1000 quote tokens under the
  preset \<open>ONLY_DYNAMIC_CF\<close>, one position of 100 tokens opened at the full borrow limit
  (\<open>target_ltv = 1.0\<close>), then a step to the price 0.9 and a step to the price 0.5. The
  preset has the EMA off, so the decay step is never called; \<open>sample_blend\<close> stands in
  for it.
\<close>

definition sample_blend :: ema_blend where
  "sample_blend hl dt spot ema = Inr spot"

definition fresh_pool :: GAMMPool where
  "fresh_pool =
     \<lparr>config = ONLY_DYNAMIC_CF,
      reserve_base = 1000000000000, reserve_quote = 1000000000000,
      total_debt = 0, total_collateral_base = 0,
      total_collateral_quote = 0, current_time = 0, pool_last_update = 0,
      price_oracle = \<lparr>use_ema = False, ema_engine = None\<rparr>,
      cf_calculator =
        \<lparr>use_dynamic_cf = True, use_pessimistic_cap = False,
         use_ltv_buffer = False, fixed_cf_bps = Some 7500, max_cf_bps = 8500\<rparr>,
      liquidation_engine =
        \<lparr>close_factor_bps = 5000, liquidation_incentive_bps = 300,
         enable_partial_liquidation = True, total_liquidations = 0,
         total_bad_debt = 0, total_liquidated_debt = 0, total_seized_collateral = 0\<rparr>,
      positions = [], next_position_id = 1, state_history = [],
      liquidation_events = []\<rparr>"










section \<open>Arithmetic of truncating division\<close>

lemma div_mult_ge_self:
  fixes b s e :: int
  assumes "0 < e" "e \<le> s" "0 \<le> b"
  shows "b \<le> (s * b) div e"
proof -
  have "e * b \<le> s * b" using assms by (simp add: mult_right_mono)
  then have "(e * b) div e \<le> (s * b) div e" using assms(1) by (rule zdiv_mono1)
  moreover have "(e * b) div e = b" using assms(1) by simp
  ultimately show ?thesis by simp
qed


section \<open>The pessimistic cap\<close>

text \<open>
  C3 (amended). The cap clamps its result to \<open>[100, MAX_COLLATERAL_FACTOR_BPS]\<close>. For a
  base CF of at least 100 the pessimistic CF never exceeds the base CF, whatever the spot
  and EMA prices; for a base CF inside the clamp range and a positive EMA price, a spot
  price at or above the EMA price leaves the base CF unchanged.
\<close>

theorem pessimistic_cf_within_clamp:
  assumes "100 \<le> base_cf_bps"
  shows "get_pessimistic_cf_bps base_cf_bps spot ema \<le> base_cf_bps
         \<and> (base_cf_bps \<le> MAX_COLLATERAL_FACTOR_BPS \<and> 0 < ema \<and> ema \<le> spot
              \<longrightarrow> get_pessimistic_cf_bps base_cf_bps spot ema = base_cf_bps)"
proof
  show "get_pessimistic_cf_bps base_cf_bps spot ema \<le> base_cf_bps"
    using assms by (auto simp: get_pessimistic_cf_bps_def Let_def min_def max_def)
next
  show "base_cf_bps \<le> MAX_COLLATERAL_FACTOR_BPS \<and> 0 < ema \<and> ema \<le> spot
          \<longrightarrow> get_pessimistic_cf_bps base_cf_bps spot ema = base_cf_bps"
  proof
    assume h: "base_cf_bps \<le> MAX_COLLATERAL_FACTOR_BPS \<and> 0 < ema \<and> ema \<le> spot"
    then have "base_cf_bps \<le> (spot * base_cf_bps) div ema"
      using assms div_mult_ge_self [of ema spot base_cf_bps] by simp
    then show "get_pessimistic_cf_bps base_cf_bps spot ema = base_cf_bps"
      using h assms by (simp add: get_pessimistic_cf_bps_def Let_def)
  qed
qed

text \<open>
  The test values of the source: a base CF of 8000 shrinks to 7200 when spot is 10% below
  the EMA price and stays 8000 when spot is 10% above it.
\<close>

theorem pessimistic_cf_within_clamp_witness:
  "(100::int) \<le> 8000
   \<and> get_pessimistic_cf_bps 8000 900000000 1000000000 = 7200
   \<and> get_pessimistic_cf_bps 8000 1100000000 1000000000 = 8000"
  using pessimistic_cf_within_clamp [of 8000 1100000000 1000000000]
  by (simp add: get_pessimistic_cf_bps_def MAX_COLLATERAL_FACTOR_BPS_def)

text \<open>
  Below the clamp range the claim as stated fails: with spot equal to the EMA price a
  base CF of 50 comes out as 100, above the base CF.
\<close>

theorem pessimistic_cf_counterexample:
  "\<not> get_pessimistic_cf_bps 50 1000000000 1000000000 \<le> 50"
  by (simp add: get_pessimistic_cf_bps_def MAX_COLLATERAL_FACTOR_BPS_def)

section \<open>The LTV buffer\<close>




section \<open>Liquidation outcomes\<close>





text \<open>
  C6. With a collateral value of zero a position is liquidatable exactly when it has
  debt. \<open>is_liquidatable\<close> says so; \<open>calculate_liquidation\<close> has no such case and compares
  the debt with a borrow limit of zero, so it reports a position with no collateral and
  no debt as liquidatable.
\<close>

theorem zero_position_reported_liquidatable:
  "calculate_liquidation 0 1000000000 0 8500 CLOSE_FACTOR_BPS LIQUIDATION_INCENTIVE_BPS =
     Inr (Liquidatable
       \<lparr>is_insolvent = False, debt_to_repay = 0, collateral_seized = 0,
        liquidator_bonus = 0, collateral_to_reserves = 0, bad_debt = 0,
        remaining_collateral = 0, remaining_debt = 0, liquidator_profit_usd = 0,
        health_factor = 0, res_collateral_value = 0, res_debt_amount = 0,
        borrow_limit = 0\<rparr>)
   \<and> \<not> is_liquidatable 0 0 8500"
  by (simp add: calculate_liquidation_def is_liquidatable_def NAD_def BPS_DENOMINATOR_def
      CLOSE_FACTOR_BPS_def LIQUIDATION_INCENTIVE_BPS_def)

section \<open>The EMA oracle\<close>

text \<open>
  C7. On an initialised oracle (\<open>last_ema \<noteq> 0\<close>) an update whose timestamp is not later
  than the last update returns the stored EMA and leaves the state as it was, so
  repeating it changes nothing.
\<close>

theorem update_idempotent:
  assumes "last_ema s \<noteq> 0" and "ts - last_update s \<le> 0"
  shows "update blend s spot ts = Inr (last_ema s, s)"
  using assms by (simp add: update_def Let_def)

text \<open>An oracle last updated at time 120 and asked again at time 60.\<close>

theorem update_idempotent_witness:
  "last_ema \<lparr>half_life = 60, last_ema = 1000000000, last_update = 120\<rparr> \<noteq> 0
   \<and> 60 - last_update \<lparr>half_life = 60, last_ema = 1000000000, last_update = 120\<rparr> \<le> 0
   \<and> update sample_blend
        \<lparr>half_life = 60, last_ema = 1000000000, last_update = 120\<rparr> 900000000 60
      = Inr (1000000000, \<lparr>half_life = 60, last_ema = 1000000000, last_update = 120\<rparr>)"
  using update_idempotent [of "\<lparr>half_life = 60, last_ema = 1000000000, last_update = 120\<rparr>"
      60 sample_blend 900000000]
  by simp

section \<open>The exact square root\<close>

lemma floor_sqrt_correct:
  "floor_sqrt n * floor_sqrt n \<le> n \<and> n < (floor_sqrt n + 1) * (floor_sqrt n + 1)"
proof (induction n rule: floor_sqrt.induct)
  case (1 n)
  show ?case
  proof (cases "n < 2")
    case True
    then show ?thesis by (auto simp: floor_sqrt.simps [of n])
  next
    case False
    define s where "s = floor_sqrt (n div 4)"
    from 1 [OF False] have ih: "s * s \<le> n div 4" "n div 4 < (s + 1) * (s + 1)"
      by (simp_all add: s_def)
    have lo: "(2 * s) * (2 * s) \<le> n" using ih(1) by simp
    have "n div 4 + 1 \<le> (s + 1) * (s + 1)" using ih(2) by simp
    then have "4 * (n div 4 + 1) \<le> 4 * ((s + 1) * (s + 1))" by simp
    moreover have "n < 4 * (n div 4 + 1)" by simp
    ultimately have hi: "n < (2 * s + 2) * (2 * s + 2)" by (simp add: algebra_simps)
    show ?thesis
      using False lo hi
      by (simp add: floor_sqrt.simps [of n] sqrt_step_def s_def [symmetric])
  qed
qed

lemma floor_sqrt_square: "floor_sqrt (k * k) = k"
proof -
  let ?s = "floor_sqrt (k * k)"
  from floor_sqrt_correct [of "k * k"]
  have lo: "?s * ?s \<le> k * k" and hi: "k * k < (?s + 1) * (?s + 1)" by simp_all
  have "?s \<le> k"
  proof (rule ccontr)
    assume "\<not> ?s \<le> k"
    then have "k < ?s" by simp
    then have "k * k < ?s * ?s" by (simp add: mult_strict_mono')
    with lo show False by simp
  qed
  moreover have "k < ?s + 1"
  proof (rule ccontr)
    assume "\<not> k < ?s + 1"
    then have "?s + 1 \<le> k" by simp
    then have "(?s + 1) * (?s + 1) \<le> k * k" by (intro mult_le_mono)
    with hi show False by simp
  qed
  ultimately show ?thesis by simp
qed




lemma exact_sqrt_110000000: "exact_sqrt 1440000000000000000 = Inr 1200000000"
  using floor_sqrt_square [of 1200000000] by (simp add: exact_sqrt_def)

section \<open>Liquidity and the dynamic collateral factor\<close>







section \<open>Construction of the calculator\<close>

text \<open>
  C9 (amended). Constructing the collateral-factor component never fails: the constructor
  stores whatever it is given. With dynamic CF disabled and no fixed CF supplied the
  solver computes every non-degenerate input from the default base CF of 7500 bps.
\<close>

theorem calculator_init_default_fallback:
  "CollateralFactorCalculator_init dyn pess buf fixed mx =
     Inr \<lparr>use_dynamic_cf = dyn, use_pessimistic_cap = pess, use_ltv_buffer = buf,
          fixed_cf_bps = fixed, max_cf_bps = mx\<rparr>
   \<and> calculate sq
        \<lparr>use_dynamic_cf = False, use_pessimistic_cap = pess, use_ltv_buffer = buf,
         fixed_cf_bps = None, max_cf_bps = mx\<rparr> ca ema_p spot reserve
      = (if ca = 0 \<or> ema_p = 0 \<or> spot = 0 then Inr (0, 0, 0)
         else Inr (finish_max_debt ((ca * ema_p) div NAD) 7500 spot ema_p pess buf))"
proof
  show "CollateralFactorCalculator_init dyn pess buf fixed mx =
     Inr \<lparr>use_dynamic_cf = dyn, use_pessimistic_cap = pess, use_ltv_buffer = buf,
          fixed_cf_bps = fixed, max_cf_bps = mx\<rparr>"
    by (simp add: CollateralFactorCalculator_init_def)
next
  have "base_cf sq ca ema_p reserve None False = Inr (Some 7500)"
    by (simp add: base_cf_def)
  then show "calculate sq
        \<lparr>use_dynamic_cf = False, use_pessimistic_cap = pess, use_ltv_buffer = buf,
         fixed_cf_bps = None, max_cf_bps = mx\<rparr> ca ema_p spot reserve
      = (if ca = 0 \<or> ema_p = 0 \<or> spot = 0 then Inr (0, 0, 0)
         else Inr (finish_max_debt ((ca * ema_p) div NAD) 7500 spot ema_p pess buf))"
    by (simp add: calculate_def pessimistic_max_debt_def)
qed

text \<open>
  With the cap and the buffer on, 100 tokens at the price 1.0 are liquidated at 7500 bps
  and borrow up to 7000 bps.
\<close>

theorem calculator_init_default_fallback_witness:
  "calculate exact_sqrt
     \<lparr>use_dynamic_cf = False, use_pessimistic_cap = True, use_ltv_buffer = True,
      fixed_cf_bps = None, max_cf_bps = 8500\<rparr>
     100000000000 1000000000 1000000000 1000000000000
   = Inr (finish_max_debt 100000000000 7500 1000000000 1000000000 True True)
   \<and> finish_max_debt 100000000000 7500 1000000000 1000000000 True True
       = (70000000000, 7000, 7500)"
  using calculator_init_default_fallback
    [of False True True None 8500 exact_sqrt 100000000000 1000000000 1000000000 1000000000000]
  by (simp add: finish_max_debt_def get_pessimistic_cf_bps_def NAD_def BPS_DENOMINATOR_def
      LTV_BUFFER_BPS_def MAX_COLLATERAL_FACTOR_BPS_def)

text \<open>
  The construction the claim says must fail returns a calculator, and that calculator
  lends against 100 tokens at a liquidation CF of 7500.
\<close>

theorem calculator_init_counterexample:
  "CollateralFactorCalculator_init False True True None MAX_COLLATERAL_FACTOR_BPS =
     Inr \<lparr>use_dynamic_cf = False, use_pessimistic_cap = True, use_ltv_buffer = True,
          fixed_cf_bps = None, max_cf_bps = 8500\<rparr>
   \<and> calculate exact_sqrt
        \<lparr>use_dynamic_cf = False, use_pessimistic_cap = True, use_ltv_buffer = True,
         fixed_cf_bps = None, max_cf_bps = 8500\<rparr>
        100000000000 1000000000 1000000000 1000000000000
      = Inr (70000000000, 7000, 7500)"
  by (simp add: CollateralFactorCalculator_init_def calculate_def pessimistic_max_debt_def
      base_cf_def finish_max_debt_def get_pessimistic_cf_bps_def NAD_def BPS_DENOMINATOR_def
      LTV_BUFFER_BPS_def MAX_COLLATERAL_FACTOR_BPS_def)

section \<open>The run of the preset, step by step\<close>

lemmas consts_defs = NAD_def BPS_DENOMINATOR_def CLOSE_FACTOR_BPS_def
  MAX_COLLATERAL_FACTOR_BPS_def LTV_BUFFER_BPS_def LIQUIDATION_INCENTIVE_BPS_def
  DEFAULT_HALF_LIFE_def




lemma only_dynamic_cf_dynamic: "dynamic_cf_enabled ONLY_DYNAMIC_CF = True"
  by (simp add: ONLY_DYNAMIC_CF_def SimulationConfig_init_def)

lemma scenario_init:
  "GAMMPool_init blend ONLY_DYNAMIC_CF 1000000000000 1000000000000 0 = Inr fresh_pool"
  by (simp add: GAMMPool_init_def ONLY_DYNAMIC_CF_def SimulationConfig_init_def
      PriceOracle_init_def CollateralFactorCalculator_init_def LiquidationEngine_init_def
      get_lending_price_def get_price_def get_spot_price_def consts_defs fresh_pool_def)




section \<open>The base collateral factor of a pool\<close>

lemma get_lending_price_calculator:
  "get_lending_price blend pool ts = Inr (lp, pool') \<Longrightarrow> cf_calculator pool' = cf_calculator pool"
  by (auto simp: get_lending_price_def Let_def split: sum.splits)

text \<open>
  Every pool hands its calculator the \<open>fixed_cf_bps\<close> of its configuration, which is an
  integer whatever the toggle \<open>dynamic_cf_enabled\<close> says.
\<close>

lemma pool_calculator_fixed:
  assumes "GAMMPool_init blend cfg rb rq ts = Inr pool"
  shows "fixed_cf_bps (cf_calculator pool) = Some (cfg_fixed_cf_bps cfg)"
proof -
  from assms obtain orac where
    orc: "PriceOracle_init (ema_enabled cfg) (if ema_enabled cfg then cfg_half_life cfg else 60)
          = Inr orac"
    by (cases "PriceOracle_init (ema_enabled cfg)
                 (if ema_enabled cfg then cfg_half_life cfg else 60)")
       (simp_all add: GAMMPool_init_def)
  define calc where "calc =
     \<lparr>use_dynamic_cf = dynamic_cf_enabled cfg, use_pessimistic_cap = pessimistic_cap_enabled cfg,
      use_ltv_buffer = ltv_buffer_enabled cfg, fixed_cf_bps = Some (cfg_fixed_cf_bps cfg),
      max_cf_bps = cfg_max_cf_bps cfg\<rparr>"
  define self where "self =
     \<lparr>config = cfg, reserve_base = rb, reserve_quote = rq, total_debt = 0,
      total_collateral_base = 0, total_collateral_quote = 0, current_time = ts,
      pool_last_update = ts, price_oracle = orac, cf_calculator = calc,
      liquidation_engine =
        LiquidationEngine_init (cfg_close_factor_bps cfg) (cfg_liquidation_incentive_bps cfg)
          (partial_liquidation_enabled cfg),
      positions = [], next_position_id = 1, state_history = [], liquidation_events = []\<rparr>"
  have unf: "GAMMPool_init blend cfg rb rq ts =
      (case get_lending_price blend self ts of Inl e \<Rightarrow> Inl e | Inr (p, self') \<Rightarrow> Inr self')"
    unfolding GAMMPool_init_def CollateralFactorCalculator_init_def Let_def self_def calc_def
    by (simp only: orc sum.case)
  with assms obtain p where g: "get_lending_price blend self ts = Inr (p, pool)"
    by (cases "get_lending_price blend self ts") auto
  have "cf_calculator pool = calc"
    using get_lending_price_calculator [OF g] by (simp add: self_def)
  then show ?thesis by (simp add: calc_def)
qed

text \<open>
  C1. A pool with dynamic CF enabled and no fixed CF configured is to take its base CF
  from the AMM curve. The preset \<open>ONLY_DYNAMIC_CF\<close> is such a configuration: it enables
  dynamic CF and passes no \<open>fixed_cf_bps\<close>. Its pool nevertheless computes with the fixed
  value 7500, the default of the omitted keyword: for 110 tokens against a debt reserve
  of 1000 the calculator of the pool returns a liquidation CF of 7500, where the curve
  gives 8264.
\<close>

theorem dynamic_preset_uses_fixed_cf:
  "GAMMPool_init blend ONLY_DYNAMIC_CF 1000000000000 1000000000000 0 = Inr fresh_pool
   \<and> dynamic_cf_enabled (config fresh_pool)
   \<and> base_cf sq 110000000000 1000000000 1000000000000
        (fixed_cf_bps (cf_calculator fresh_pool)) (use_dynamic_cf (cf_calculator fresh_pool))
      = Inr (Some 7500)
   \<and> calculate sq (cf_calculator fresh_pool) 110000000000 1000000000 1000000000
        1000000000000 = Inr (82500000000, 7500, 7500)
   \<and> calculate_dynamic_cf exact_sqrt 110000000000 1000000000 1000000000000 = Inr 8264"
proof -
  have "dynamic_cf_enabled (config fresh_pool)"
    by (simp add: fresh_pool_def only_dynamic_cf_dynamic)
  moreover have "base_cf sq 110000000000 1000000000 1000000000000
        (fixed_cf_bps (cf_calculator fresh_pool)) (use_dynamic_cf (cf_calculator fresh_pool))
      = Inr (Some 7500)"
    by (simp add: fresh_pool_def base_cf_def)
  moreover have "calculate sq (cf_calculator fresh_pool) 110000000000 1000000000 1000000000
        1000000000000 = Inr (82500000000, 7500, 7500)"
    by (simp add: fresh_pool_def calculate_def pessimistic_max_debt_def base_cf_def
        finish_max_debt_def consts_defs)
  moreover have
    "calculate_dynamic_cf exact_sqrt 110000000000 1000000000 1000000000000 = Inr 8264"
    by (simp add: calculate_dynamic_cf_def curve_y_from_v_def NAD_def BPS_DENOMINATOR_def
        exact_sqrt_110000000)
  ultimately show ?thesis using scenario_init by simp
qed

section \<open>Positions across liquidation checks\<close>








end
